theory Spec2Isabelle
  imports Main
begin

section \<open>Python values: errors, strings, paths\<close>

text \<open>
  Every exception the source can raise is a constructor of \<open>error\<close>; a function that
  may raise returns \<open>error + 'a\<close> with \<open>Inl\<close> for the exception. A method that
  mutates its object before it raises returns the outcome together with the state, so
  that the state after a raise is part of the model.
\<close>

datatype error =
    AssertionError string
  | NotImplementedError string
  | IndexError
  | KeyError string
  | ImportError string
  | ValueError string
  | CoilSnakeError string
  | AttributeError string
  | FileNotFoundError string
  | FileExistsError string
  | IsADirectoryError string
  | NotADirectoryError string
  | ModuleNotFoundError string
  | YAMLError

definition FORMAT_VERSION :: int where
  "FORMAT_VERSION = 13"

text \<open>\<open>str(n)\<close> for a Python int, as the f-strings of the source format it.\<close>

fun str_nat :: "nat \<Rightarrow> string" where
  "str_nat n = (if n < 10 then [char_of (48 + n)]
                else str_nat (n div 10) @ [char_of (48 + n mod 10)])"

declare str_nat.simps [simp del]

definition str_int :: "int \<Rightarrow> string" where
  "str_int i = (if i < 0 then CHR ''-'' # str_nat (nat (- i)) else str_nat (nat i))"

text \<open>\<open>s.rstrip(c)\<close> for a one-character argument.\<close>

definition rstrip :: "char \<Rightarrow> string \<Rightarrow> string" where
  "rstrip c s = rev (dropWhile (\<lambda>x. x = c) (rev s))"

text \<open>\<open>s.split(c)\<close>: never the empty list.\<close>

fun split :: "char \<Rightarrow> string \<Rightarrow> string list" where
  "split c [] = [[]]"
| "split c (x # xs) =
     (if x = c then [] # split c xs
      else (let r = split c xs in (x # hd r) # tl r))"

text \<open>\<open>s.rpartition(c)[-1]\<close>: what follows the last \<open>c\<close>, the whole string when there is none.\<close>

definition rpartition_last :: "char \<Rightarrow> string \<Rightarrow> string" where
  "rpartition_last c s = rev (takeWhile (\<lambda>x. x \<noteq> c) (rev s))"

text \<open>\<open>os.path.join(a, b)\<close> and \<open>os.path.dirname(p)\<close> of \<open>posixpath\<close>.\<close>

definition os_path_join :: "string \<Rightarrow> string \<Rightarrow> string" where
  "os_path_join a b =
     (if b \<noteq> [] \<and> hd b = CHR ''/'' then b
      else if a = [] \<or> last a = CHR ''/'' then a @ b
      else a @ ''/'' @ b)"

definition os_path_dirname :: "string \<Rightarrow> string" where
  "os_path_dirname p =
     (let head = rev (dropWhile (\<lambda>x. x \<noteq> CHR ''/'') (rev p))
      in if head \<noteq> [] \<and> \<not> list_all (\<lambda>x. x = CHR ''/'') head
         then rstrip (CHR ''/'') head else head)"

section \<open>Module classes and the registry of built-in modules\<close>

text \<open>
  A module class is an external collaborator; the source only calls its class method
  \<open>is_compatible_with_romtype\<close>. The registry is the list of \<open>(name, class)\<close> pairs that
  \<open>get_default_modules()\<close> returns.
\<close>

datatype module_class =
  ModuleClass (class_id: string) (is_compatible_with_romtype: "string \<Rightarrow> bool")

type_synonym registry = "(string \<times> module_class) list"

text \<open>A Python module object, seen through its \<open>__dict__\<close>.\<close>

type_synonym pymodule = "string \<rightharpoonup> module_class"

text \<open>
  Lines 80 to 82 of the source: the import of \<open>coilsnake.modules.<line>\<close> and the lookup
  of the class named by the last dotted component. The importer is the environment:
  \<open>imp name\<close> is the module the name resolves to, if any.
\<close>

definition resolve_builtin :: "(string \<rightharpoonup> pymodule) \<Rightarrow> string \<Rightarrow> error + module_class" where
  "resolve_builtin imp line =
     (let components = split (CHR ''.'') line in
      case imp (''coilsnake.modules.'' @ line) of
        None \<Rightarrow> Inl (ImportError (''coilsnake.modules.'' @ line))
      | Some m \<Rightarrow>
          (case m (last components) of
             None \<Rightarrow> Inl (KeyError (last components))
           | Some cls \<Rightarrow> Inr cls))"

text \<open>
  The loop over the lines of \<open>modulelist.txt\<close>. \<open>line[0]\<close> on the empty string raises
  \<open>IndexError\<close>.
\<close>

fun read_modulelist :: "(string \<rightharpoonup> pymodule) \<Rightarrow> string list \<Rightarrow> registry \<Rightarrow> error + registry" where
  "read_modulelist imp [] all_modules = Inr all_modules"
| "read_modulelist imp (l # f) all_modules =
     (let line = rstrip (CHR 0x0A) l in
      case line of
        [] \<Rightarrow> Inl IndexError
      | c # _ \<Rightarrow>
          if c = CHR ''#'' then read_modulelist imp f all_modules
          else (case resolve_builtin imp line of
                  Inl e \<Rightarrow> Inl e
                | Inr cls \<Rightarrow> read_modulelist imp f (all_modules @ [(line, cls)])))"

text \<open>
  The class method \<open>_get_default_modules\<close>, with the class attribute \<open>_DEFAULT_MODULES\<close>
  passed in and returned. \<open>not cls._DEFAULT_MODULES\<close> holds for \<open>None\<close> and for the
  empty list.
\<close>

definition get_default_modules ::
  "(string \<rightharpoonup> pymodule) \<Rightarrow> string list \<Rightarrow> registry option
    \<Rightarrow> (error + registry) \<times> registry option" where
  "get_default_modules imp manifest DEFAULT_MODULES =
     (case DEFAULT_MODULES of
        Some (m # ms) \<Rightarrow> (Inr (m # ms), DEFAULT_MODULES)
      | _ \<Rightarrow>
          (case read_modulelist imp manifest [] of
             Inl e \<Rightarrow> (Inl e, DEFAULT_MODULES)
           | Inr all_modules \<Rightarrow> (Inr all_modules, Some all_modules)))"

text \<open>
  What the manifest is said to hold: blank lines and lines that begin with the comment
  marker are ignored, every other line is resolved, in order, and the first failure is
  the result.
\<close>

fun resolve_all :: "(string \<rightharpoonup> pymodule) \<Rightarrow> string list \<Rightarrow> error + registry" where
  "resolve_all imp [] = Inr []"
| "resolve_all imp (n # ns) =
     (case resolve_builtin imp n of
        Inl e \<Rightarrow> Inl e
      | Inr cls \<Rightarrow> (case resolve_all imp ns of Inl e \<Rightarrow> Inl e | Inr r \<Rightarrow> Inr ((n, cls) # r)))"

definition manifest_names :: "string list \<Rightarrow> string list" where
  "manifest_names manifest =
     filter (\<lambda>line. line \<noteq> [] \<and> hd line \<noteq> CHR ''#'') (map (rstrip (CHR 0x0A)) manifest)"

definition spec_discovery :: "(string \<rightharpoonup> pymodule) \<Rightarrow> string list \<Rightarrow> error + registry" where
  "spec_discovery imp manifest = resolve_all imp (manifest_names manifest)"

section \<open>ModuleConfig\<close>

definition LABEL :: string where "LABEL = ''module configuration''"
definition L_ENABLED :: string where "L_ENABLED = ''enabled modules''"
definition L_DISABLED :: string where "L_DISABLED = ''disabled modules''"
definition L_PROJ_SPECIFIC :: string where "L_PROJ_SPECIFIC = ''project-specific modules''"

record ModuleConfig =
  romtype :: string
  project_dir :: string
  enabled_module_names :: "string list"
  disabled_module_names :: "string list"
  project_specific_modules :: "string list"

text \<open>
  The stored module configuration, a dict from label to list of names, as an association
  list in key order.
\<close>

type_synonym moduleconfig_dict = "(string \<times> string list) list"

definition dict_get :: "moduleconfig_dict \<Rightarrow> string \<Rightarrow> error + string list" where
  "dict_get d k = (case map_of d k of None \<Rightarrow> Inl (KeyError k) | Some v \<Rightarrow> Inr v)"

definition class_is_compatible :: "ModuleConfig \<Rightarrow> module_class \<Rightarrow> bool" where
  "class_is_compatible self cls = is_compatible_with_romtype cls (romtype self)"

definition filter_to_compatible :: "ModuleConfig \<Rightarrow> registry \<Rightarrow> registry" where
  "filter_to_compatible self mods = filter (\<lambda>(name, cls). class_is_compatible self cls) mods"

text \<open>
  In the methods below \<open>R\<close> is the value of \<open>self.get_default_modules()\<close>, the
  process-wide registry.
\<close>

definition get_compatible_default_module_names :: "registry \<Rightarrow> ModuleConfig \<Rightarrow> string list" where
  "get_compatible_default_module_names R self = map fst (filter_to_compatible self R)"

definition ModuleConfig_init ::
  "registry \<Rightarrow> string \<Rightarrow> string \<Rightarrow> moduleconfig_dict option \<Rightarrow> error + ModuleConfig" where
  "ModuleConfig_init R rt dir moduleconfig_dict =
     (let self = \<lparr>romtype = rt, project_dir = dir, enabled_module_names = [],
                  disabled_module_names = [], project_specific_modules = []\<rparr>
      in case moduleconfig_dict of
           Some (kv # kvs) \<Rightarrow>
             (case dict_get (kv # kvs) L_ENABLED of
                Inl e \<Rightarrow> Inl e
              | Inr en \<Rightarrow>
                  (case dict_get (kv # kvs) L_DISABLED of
                     Inl e \<Rightarrow> Inl e
                   | Inr dis \<Rightarrow>
                       (case dict_get (kv # kvs) L_PROJ_SPECIFIC of
                          Inl e \<Rightarrow> Inl e
                        | Inr ps \<Rightarrow>
                            Inr (self\<lparr>enabled_module_names := en,
                                      disabled_module_names := dis,
                                      project_specific_modules := ps\<rparr>))))
         | _ \<Rightarrow> Inr (self\<lparr>enabled_module_names := get_compatible_default_module_names R self\<rparr>))"

definition to_dict :: "ModuleConfig \<Rightarrow> moduleconfig_dict" where
  "to_dict self =
     [(L_ENABLED, enabled_module_names self),
      (L_DISABLED, disabled_module_names self),
      (L_PROJ_SPECIFIC, project_specific_modules self)]"

definition add_missing_defaults :: "registry \<Rightarrow> ModuleConfig \<Rightarrow> bool \<Rightarrow> ModuleConfig" where
  "add_missing_defaults R self enabled =
     (let present = set (enabled_module_names self) \<union> set (disabled_module_names self);
          missing = map fst (filter (\<lambda>(name, _). name \<notin> present) (filter_to_compatible self R))
      in if enabled
         then self\<lparr>enabled_module_names := enabled_module_names self @ missing\<rparr>
         else self\<lparr>disabled_module_names := disabled_module_names self @ missing\<rparr>)"

text \<open>
  The interpreter state that \<open>load_project_specific_module\<close> reads and writes is
  \<open>sys.modules\<close>. \<open>importable dir name\<close> is what lines 143 to 145 do for \<open>name\<close>
  while \<open>dir\<close> is first on \<open>sys.path\<close>: \<open>Inr (Some m)\<close> when \<open>find_spec\<close> gives a
  spec and the import gives the module \<open>m\<close>, \<open>Inr None\<close> when \<open>find_spec\<close> returns
  \<open>None\<close>, \<open>Inl e\<close> when either call raises \<open>e\<close> (\<open>find_spec\<close> raises
  \<open>ModuleNotFoundError\<close> for a dotted name whose parent package is missing).
  \<open>TempSysPathContext\<close> restores \<open>sys.path\<close> on exit, also when the body raises, so the
  path itself is not part of the state.
\<close>

record interpreter =
  sys_modules :: "string \<rightharpoonup> pymodule"
  importable :: "string \<Rightarrow> string \<Rightarrow> error + pymodule option"

definition load_project_specific_module ::
  "ModuleConfig \<Rightarrow> interpreter \<Rightarrow> string \<Rightarrow> (error + module_class) \<times> interpreter" where
  "load_project_specific_module self I module_name =
     (case (case sys_modules I module_name of
              Some m \<Rightarrow> Inr (Some m, I)
            | None \<Rightarrow>
                (case importable I (os_path_join (project_dir self) ''CustomModules'') module_name of
                   Inl e \<Rightarrow> Inl e
                 | Inr None \<Rightarrow> Inr (None, I)
                 | Inr (Some m) \<Rightarrow>
                     Inr (Some m, I\<lparr>sys_modules := (sys_modules I)(module_name \<mapsto> m)\<rparr>))) of
        Inl e \<Rightarrow> (Inl e, I)
      | Inr (found, I') \<Rightarrow>
          (case found of
             None \<Rightarrow>
               (Inl (ValueError (''Cannot locate module '' @ [CHR 0x27] @ module_name @ [CHR 0x27])), I')
           | Some m \<Rightarrow>
               (let cls_name = rpartition_last (CHR ''.'') module_name in
                case m cls_name of
                  None \<Rightarrow>
                    (Inl (ValueError (''Module '' @ [CHR 0x27] @ module_name @ [CHR 0x27]
                            @ '' must have a class named '' @ [CHR 0x27] @ cls_name @ [CHR 0x27])), I')
                | Some cls \<Rightarrow> (Inr cls, I'))))"

text \<open>The second loop of \<open>get_project_modules\<close>, over the project-specific names.\<close>

fun load_project_specific_loop ::
  "ModuleConfig \<Rightarrow> interpreter \<Rightarrow> string list \<Rightarrow> registry \<Rightarrow> (error + registry) \<times> interpreter" where
  "load_project_specific_loop self I [] project_modules = (Inr project_modules, I)"
| "load_project_specific_loop self I (name # names) project_modules =
     (case load_project_specific_module self I name of
        (Inl e, I') \<Rightarrow> (Inl e, I')
      | (Inr cls, I') \<Rightarrow> load_project_specific_loop self I' names (project_modules @ [(name, cls)]))"

definition get_project_modules ::
  "registry \<Rightarrow> ModuleConfig \<Rightarrow> interpreter \<Rightarrow> (error + registry) \<times> interpreter" where
  "get_project_modules R self I =
     (let enabled = set (enabled_module_names self);
          project_modules = filter (\<lambda>(name, cls). name \<in> enabled \<and> class_is_compatible self cls) R
      in load_project_specific_loop self I (project_specific_modules self) project_modules)"

definition upgrade :: "registry \<Rightarrow> ModuleConfig \<Rightarrow> int \<Rightarrow> int \<Rightarrow> error + unit" where
  "upgrade R self old_version new_version =
     (if old_version < 13 then
        (if enabled_module_names self \<noteq> get_compatible_default_module_names R self
           then Inl (AssertionError [])
         else if disabled_module_names self \<noteq> [] then Inl (AssertionError [])
         else if project_specific_modules self \<noteq> [] then Inl (AssertionError [])
         else Inr ())
      else Inl (NotImplementedError
                 (''Don't know how to upgrade from version '' @ str_int old_version)))"

section \<open>The file system and the descriptor file\<close>

type_synonym resource_registry = "string \<rightharpoonup> (string \<rightharpoonup> string)"

text \<open>
  Modelled from the spec: \<open>yml_load\<close> and \<open>yml_dump\<close> (\<open>coilsnake.util.common.yml\<close>) are
  not among the sources. The spec has the descriptor file as a key/value document with
  the top-level keys \<open>romtype\<close>, \<open>version\<close>, the module configuration block and
  \<open>resources\<close>, so a descriptor is kept as the mapping it decodes to: what
  \<open>yml_dump\<close> writes, \<open>yml_load\<close> reads back. Each of the four keys may be missing; for
  the key \<open>resources\<close> the value may be \<open>None\<close> (\<open>Some None\<close> here). The key of the
  module configuration block is \<open>LABEL\<close>.
\<close>

record document =
  doc_romtype :: "string option"
  doc_version :: "int option"
  doc_moduleconfig :: "moduleconfig_dict option"
  doc_resources :: "resource_registry option option"

text \<open>A regular file holds a descriptor or anything else (\<open>Data\<close>, which does not decode).\<close>

datatype content = Yaml document | Data

record filesystem =
  files :: "string \<rightharpoonup> content"
  dirs :: "string set"

datatype file_handle = FileHandle (handle_name: string) (handle_mode: string)

text \<open>The builtins the source calls, on this file system.\<close>

definition os_path_exists :: "filesystem \<Rightarrow> string \<Rightarrow> bool" where
  "os_path_exists fs p = (p \<in> dom (files fs) \<or> p \<in> dirs fs)"

definition os_path_isfile :: "filesystem \<Rightarrow> string \<Rightarrow> bool" where
  "os_path_isfile fs p = (p \<in> dom (files fs))"

definition os_remove :: "filesystem \<Rightarrow> string \<Rightarrow> filesystem" where
  "os_remove fs p = fs\<lparr>files := (files fs)(p := None)\<rparr>"

text \<open>
  \<open>os.makedirs(d, exist_ok)\<close> creates \<open>d\<close> and the ancestors of \<open>d\<close> that are missing.
  \<open>path_ancestors d\<close> are the prefixes of \<open>d\<close> that end before a separator.
\<close>

fun slash_prefixes :: "string \<Rightarrow> string \<Rightarrow> string list" where
  "slash_prefixes seen [] = []"
| "slash_prefixes seen (c # cs) =
     (if c = CHR ''/'' then [seen] else []) @ slash_prefixes (seen @ [c]) cs"

definition path_ancestors :: "string \<Rightarrow> string list" where
  "path_ancestors d =
     filter (\<lambda>a. a \<noteq> []) (map (rstrip (CHR ''/'')) (slash_prefixes [] d))"

definition os_makedirs :: "filesystem \<Rightarrow> string \<Rightarrow> bool \<Rightarrow> error + filesystem" where
  "os_makedirs fs d exist_ok =
     (if d = [] then Inl (FileNotFoundError d)
      else if list_ex (\<lambda>a. a \<in> dom (files fs)) (path_ancestors d) then Inl (NotADirectoryError d)
      else if d \<in> dom (files fs) then Inl (FileExistsError d)
      else if d \<in> dirs fs then (if exist_ok then Inr fs else Inl (FileExistsError d))
      else Inr (fs\<lparr>dirs := insert d (set (path_ancestors d) \<union> dirs fs)\<rparr>))"

text \<open>
  \<open>open(fname, mode)\<close>. A mode is valid when its characters are among \<open>axrwb+t\<close>, none
  is repeated, \<open>t\<close> and \<open>b\<close> are not both there and exactly one of \<open>a\<close>, \<open>x\<close>,
  \<open>r\<close>, \<open>w\<close> is; any other mode raises \<open>ValueError\<close> before the file is looked at.
  \<open>r\<close> needs the file; \<open>x\<close> refuses an existing one; \<open>w\<close>, \<open>a\<close> and \<open>x\<close> create
  the file in an existing directory, and \<open>w\<close> empties it.
\<close>

definition valid_mode :: "string \<Rightarrow> bool" where
  "valid_mode mode =
     (list_all (\<lambda>c. c \<in> set ''axrwb+t'') mode
      \<and> distinct mode
      \<and> \<not> (CHR ''t'' \<in> set mode \<and> CHR ''b'' \<in> set mode)
      \<and> length (filter (\<lambda>c. c \<in> set ''axrw'') mode) = 1)"

definition py_open :: "filesystem \<Rightarrow> string \<Rightarrow> string \<Rightarrow> (error + file_handle) \<times> filesystem" where
  "py_open fs fname mode =
     (if \<not> valid_mode mode then (Inl (ValueError mode), fs)
      else if fname \<in> dirs fs then (Inl (IsADirectoryError fname), fs)
      else if CHR ''r'' \<in> set mode then
        (if fname \<in> dom (files fs) then (Inr (FileHandle fname mode), fs)
         else (Inl (FileNotFoundError fname), fs))
      else if CHR ''x'' \<in> set mode \<and> fname \<in> dom (files fs) then (Inl (FileExistsError fname), fs)
      else if os_path_dirname fname \<noteq> [] \<and> os_path_dirname fname \<notin> dirs fs
        then (Inl (FileNotFoundError fname), fs)
      else if CHR ''w'' \<in> set mode then
        (Inr (FileHandle fname mode), fs\<lparr>files := (files fs)(fname \<mapsto> Data)\<rparr>)
      else
        (Inr (FileHandle fname mode),
         fs\<lparr>files := (files fs)(fname \<mapsto> (case files fs fname of None \<Rightarrow> Data | Some c \<Rightarrow> c))\<rparr>))"

section \<open>Project\<close>

text \<open>
  Modelled from the spec: \<open>ROM_TYPE_NAME_UNKNOWN\<close> is imported from
  \<open>coilsnake.model.common.blocks\<close>, which is not among the sources; the spec calls it the
  reserved sentinel "unknown". No property below depends on its value.
\<close>

definition ROM_TYPE_NAME_UNKNOWN :: string where
  "ROM_TYPE_NAME_UNKNOWN = ''unknown''"

text \<open>
  \<open>version\<close> is \<open>None\<close> while the attribute has never been assigned: \<open>__init__\<close> does
  not pre-initialise it.
\<close>

record Project =
  project_romtype :: string
  resources :: resource_registry
  moduleconfig :: ModuleConfig
  snake_filename :: string
  dir_name :: string
  version :: "int option"

definition read_version :: "Project \<Rightarrow> error + int" where
  "read_version self =
     (case version self of None \<Rightarrow> Inl (AttributeError ''version'') | Some v \<Rightarrow> Inr v)"

text \<open>
  \<open>Project.__init__\<close>, in three parts. \<open>load_stored\<close> is the branch that adopts the
  decoded file (lines 182 to 189), \<open>start_empty\<close> is what the other two branches leave
  behind (the pre-initialised empty registry, no \<open>moduleconfig_dict\<close>, no \<open>version\<close>);
  both end with the construction of the \<open>ModuleConfig\<close> of line 201.
\<close>

definition load_stored ::
  "registry \<Rightarrow> filesystem \<Rightarrow> string \<Rightarrow> document \<Rightarrow> string \<Rightarrow> error + (Project \<times> filesystem)" where
  "load_stored R fs filename data stored =
     (case doc_resources data of
        None \<Rightarrow> Inl (KeyError ''resources'')
      | Some res \<Rightarrow>
          (case ModuleConfig_init R stored (os_path_dirname filename) (doc_moduleconfig data) of
             Inl e \<Rightarrow> Inl e
           | Inr mc \<Rightarrow>
               Inr (\<lparr>project_romtype = stored,
                     resources = (case res of None \<Rightarrow> Map.empty | Some r \<Rightarrow> r),
                     moduleconfig = mc,
                     snake_filename = filename,
                     dir_name = os_path_dirname filename,
                     version = Some (case doc_version data of None \<Rightarrow> 1 | Some v \<Rightarrow> v)\<rparr>,
                    fs)))"

definition start_empty ::
  "registry \<Rightarrow> filesystem \<Rightarrow> string \<Rightarrow> string \<Rightarrow> error + (Project \<times> filesystem)" where
  "start_empty R fs filename t =
     (case ModuleConfig_init R t (os_path_dirname filename) None of
        Inl e \<Rightarrow> Inl e
      | Inr mc \<Rightarrow>
          Inr (\<lparr>project_romtype = t, resources = Map.empty, moduleconfig = mc,
                snake_filename = filename, dir_name = os_path_dirname filename,
                version = None\<rparr>, fs))"

text \<open>
  \<open>romtype\<close> is \<open>None\<close> when the caller leaves it out. A missing file is the
  \<open>except IOError\<close> branch; \<open>assert romtype and ...\<close> fails for \<open>None\<close>, for the empty
  string and for the sentinel.
\<close>

definition Project_init ::
  "registry \<Rightarrow> filesystem \<Rightarrow> string \<Rightarrow> string option \<Rightarrow> error + (Project \<times> filesystem)" where
  "Project_init R fs filename rt =
     (case files fs filename of
        Some Data \<Rightarrow> Inl YAMLError
      | Some (Yaml data) \<Rightarrow>
          (case doc_romtype data of
             None \<Rightarrow> Inl (KeyError ''romtype'')
           | Some stored \<Rightarrow>
               (case rt of
                  None \<Rightarrow> load_stored R fs filename data stored
                | Some t \<Rightarrow>
                    if t = stored then load_stored R fs filename data stored
                    else start_empty R fs filename t))
      | None \<Rightarrow>
          (case rt of
             None \<Rightarrow> Inl (AssertionError ''Can't make new project of unknown type!'')
           | Some t \<Rightarrow>
               if t = [] \<or> t = ROM_TYPE_NAME_UNKNOWN
               then Inl (AssertionError ''Can't make new project of unknown type!'')
               else (case os_makedirs fs (os_path_dirname filename) True of
                       Inl e \<Rightarrow> Inl e
                     | Inr fs' \<Rightarrow> start_empty R fs' filename t)))"

text \<open>\<open>Project.save\<close>: both dumps go to the one file, which then decodes to the four keys.\<close>

definition save :: "Project \<Rightarrow> filesystem \<Rightarrow> error + filesystem" where
  "save self fs =
     (let tmp = \<lparr>doc_romtype = Some (project_romtype self),
                 doc_version = Some FORMAT_VERSION,
                 doc_moduleconfig = Some (to_dict (moduleconfig self)),
                 doc_resources = Some (Some (resources self))\<rparr>
      in case py_open fs (snake_filename self) ''w'' of
           (Inl e, _) \<Rightarrow> Inl e
         | (Inr f, fs') \<Rightarrow> Inr (fs'\<lparr>files := (files fs')(snake_filename self \<mapsto> Yaml tmp)\<rparr>))"

text \<open>
  \<open>Project.get_resource\<close> and \<open>Project.delete_resource\<close> return the outcome, the project
  and the file system, whether they raise or not.
\<close>

definition get_resource ::
  "Project \<Rightarrow> filesystem \<Rightarrow> string \<Rightarrow> string \<Rightarrow> string \<Rightarrow> string
    \<Rightarrow> (error + file_handle) \<times> Project \<times> filesystem" where
  "get_resource self fs module_name resource_name extension mode =
     (let self1 = (if module_name \<notin> dom (resources self)
                   then self\<lparr>resources := (resources self)(module_name \<mapsto> Map.empty)\<rparr>
                   else self)
      in case resources self1 module_name of
           None \<Rightarrow> (Inl (KeyError module_name), self1, fs)
         | Some d \<Rightarrow>
             (let self2 = (if resource_name \<notin> dom d
                           then self1\<lparr>resources := (resources self1)
                                  (module_name \<mapsto> d(resource_name \<mapsto> resource_name @ ''.'' @ extension))\<rparr>
                           else self1)
              in case resources self2 module_name of
                   None \<Rightarrow> (Inl (KeyError module_name), self2, fs)
                 | Some d' \<Rightarrow>
                     (case d' resource_name of
                        None \<Rightarrow> (Inl (KeyError resource_name), self2, fs)
                      | Some rel \<Rightarrow>
                          (let fname = os_path_join (dir_name self2) rel;
                               parent = os_path_dirname fname
                           in case (if \<not> os_path_exists fs parent
                                    then os_makedirs fs parent False else Inr fs) of
                                Inl e \<Rightarrow> (Inl e, self2, fs)
                              | Inr fs' \<Rightarrow>
                                  (case py_open fs' fname mode of
                                     (f, fs'') \<Rightarrow> (f, self2, fs''))))))"

definition delete_resource ::
  "Project \<Rightarrow> filesystem \<Rightarrow> string \<Rightarrow> string \<Rightarrow> (error + unit) \<times> Project \<times> filesystem" where
  "delete_resource self fs module_name resource_name =
     (case resources self module_name of
        None \<Rightarrow> (Inl (CoilSnakeError (''No such module '' @ module_name)), self, fs)
      | Some d \<Rightarrow>
          (case d resource_name of
             None \<Rightarrow>
               (Inl (CoilSnakeError (''No such resource '' @ resource_name
                       @ '' in module '' @ module_name)), self, fs)
           | Some rel \<Rightarrow>
               (let fname = os_path_join (dir_name self) rel;
                    fs' = (if os_path_isfile fs fname then os_remove fs fname else fs)
                in (Inr (),
                    self\<lparr>resources := (resources self)(module_name \<mapsto> d(resource_name := None))\<rparr>,
                    fs'))))"

definition load_modules ::
  "registry \<Rightarrow> Project \<Rightarrow> interpreter \<Rightarrow> (error + registry) \<times> interpreter" where
  "load_modules R self I = get_project_modules R (moduleconfig self) I"

definition Project_upgrade ::
  "registry \<Rightarrow> Project \<Rightarrow> int \<Rightarrow> int \<Rightarrow> (error + unit) \<times> Project" where
  "Project_upgrade R self old_version new_version =
     (case upgrade R (moduleconfig self) old_version new_version of
        Inl e \<Rightarrow> (Inl e, self)
      | Inr u \<Rightarrow> (Inr (), self\<lparr>version := Some new_version\<rparr>))"

section \<open>Example data\<close>

text \<open>The registry of the end-to-end example: \<open>A\<close> is compatible with \<open>X\<close>, \<open>B\<close> is not.\<close>

definition example_A :: module_class where
  "example_A = ModuleClass ''A'' (\<lambda>t. t = ''X'')"

definition example_B :: module_class where
  "example_B = ModuleClass ''B'' (\<lambda>t. t = ''Y'')"

definition example_registry :: registry where
  "example_registry = [(''A'', example_A), (''B'', example_B)]"

definition example_custom :: module_class where
  "example_custom = ModuleClass ''Mine'' (\<lambda>t. True)"

definition example_interpreter :: interpreter where
  "example_interpreter =
     \<lparr>sys_modules = [''Mine'' \<mapsto> [''Mine'' \<mapsto> example_custom]], importable = (\<lambda>d n. Inr None)\<rparr>"

definition example_config :: "string list \<Rightarrow> ModuleConfig" where
  "example_config specific =
     \<lparr>romtype = ''X'', project_dir = ''proj'', enabled_module_names = [''A''],
      disabled_module_names = [], project_specific_modules = specific\<rparr>"

definition example_C :: module_class where
  "example_C = ModuleClass ''C'' (\<lambda>t. t = ''X'')"

definition example_D :: module_class where
  "example_D = ModuleClass ''D'' (\<lambda>t. t = ''X'' \<or> t = ''Y'')"

definition example_registry_wide :: registry where
  "example_registry_wide =
     [(''A'', example_A), (''B'', example_B), (''C'', example_C), (''D'', example_D)]"

definition example_partial_config :: ModuleConfig where
  "example_partial_config =
     \<lparr>romtype = ''X'', project_dir = ''proj'', enabled_module_names = [''C''],
      disabled_module_names = [], project_specific_modules = []\<rparr>"

definition example_importer :: "string \<rightharpoonup> pymodule" where
  "example_importer = [''coilsnake.modules.eb.A'' \<mapsto> [''A'' \<mapsto> example_A]]"

definition example_manifest :: "string list" where
  "example_manifest = [''# built-in modules'' @ [CHR 0x0A], ''eb.A'' @ [CHR 0x0A]]"

definition example_manifest_blank :: "string list" where
  "example_manifest_blank = [''eb.A'' @ [CHR 0x0A], [CHR 0x0A]]"

definition example_project :: Project where
  "example_project =
     \<lparr>project_romtype = ''X'',
      resources = [''eb.A'' \<mapsto> [''table'' \<mapsto> ''table.yml'']],
      moduleconfig = example_config [''Mine''],
      snake_filename = ''proj/Project.snake'',
      dir_name = ''proj'',
      version = Some 12\<rparr>"

definition example_fs :: filesystem where
  "example_fs = \<lparr>files = Map.empty, dirs = {''proj''}\<rparr>"

definition example_document :: document where
  "example_document =
     \<lparr>doc_romtype = Some ''X'',
      doc_version = Some 13,
      doc_moduleconfig = Some (to_dict (example_config [''Mine''])),
      doc_resources = Some (Some [''eb.A'' \<mapsto> [''table'' \<mapsto> ''table.yml'']])\<rparr>"

definition example_saved_fs :: filesystem where
  "example_saved_fs =
     \<lparr>files = [''proj/Project.snake'' \<mapsto> Yaml example_document], dirs = {''proj''}\<rparr>"

definition example_registered :: Project where
  "example_registered =
     example_project\<lparr>resources :=
       [''eb.A'' \<mapsto> [''table'' \<mapsto> ''table.yml'', ''icons'' \<mapsto> ''icons.dat'']]\<rparr>"

definition example_fs_icons :: filesystem where
  "example_fs_icons = \<lparr>files = [''proj/icons.dat'' \<mapsto> Data], dirs = {''proj''}\<rparr>"

definition example_new_project :: Project where
  "example_new_project =
     \<lparr>project_romtype = ''X'', resources = Map.empty, moduleconfig = example_config [],
      snake_filename = ''proj/Project.snake'', dir_name = ''proj'', version = None\<rparr>"

section \<open>ModuleConfig: defaults and resolution\<close>

lemma romtype_add_missing_defaults:
  "romtype (add_missing_defaults R self b) = romtype self"
  by (simp add: add_missing_defaults_def Let_def)

lemma filter_to_compatible_cong:
  "romtype s = romtype s' \<Longrightarrow> filter_to_compatible s R = filter_to_compatible s' R"
  by (simp add: filter_to_compatible_def class_is_compatible_def)

lemma add_missing_defaults_noop:
  assumes "set (get_compatible_default_module_names R s)
             \<subseteq> set (enabled_module_names s) \<union> set (disabled_module_names s)"
  shows "add_missing_defaults R s b = s"
proof -
  have "filter (\<lambda>(name, _). name \<notin> set (enabled_module_names s) \<union> set (disabled_module_names s))
          (filter_to_compatible s R) = []"
    using assms by (auto simp: filter_empty_conv get_compatible_default_module_names_def)
  then show ?thesis
    by (simp add: add_missing_defaults_def Let_def)
qed

lemma compatible_missing_names:
  "map fst (filter (\<lambda>(name, _). name \<notin> A \<union> B) (filter_to_compatible self R))
     = map fst (filter (\<lambda>(name, cls). is_compatible_with_romtype cls (romtype self)
                          \<and> name \<notin> A \<and> name \<notin> B) R)"
  by (induction R) (auto simp: filter_to_compatible_def class_is_compatible_def)

text \<open>
  C5. \<open>add_missing_defaults\<close> appends to the chosen list exactly the names of the registry
  entries whose class is compatible with the target type and whose name is in neither
  \<open>enabled\<close> nor \<open>disabled\<close>, in registry order, and leaves the rest of the
  configuration as it was; a second call with the same flag changes nothing.
\<close>

theorem add_missing_defaults_appends_idempotent:
  "add_missing_defaults R self target_enabled =
     (let missing = map fst (filter (\<lambda>(name, cls). is_compatible_with_romtype cls (romtype self)
                                        \<and> name \<notin> set (enabled_module_names self)
                                        \<and> name \<notin> set (disabled_module_names self)) R)
      in if target_enabled
         then self\<lparr>enabled_module_names := enabled_module_names self @ missing\<rparr>
         else self\<lparr>disabled_module_names := disabled_module_names self @ missing\<rparr>)
   \<and> add_missing_defaults R (add_missing_defaults R self target_enabled) target_enabled
       = add_missing_defaults R self target_enabled"
proof -
  let ?s = "add_missing_defaults R self target_enabled"
  let ?missing = "map fst (filter (\<lambda>(name, cls). is_compatible_with_romtype cls (romtype self)
                                        \<and> name \<notin> set (enabled_module_names self)
                                        \<and> name \<notin> set (disabled_module_names self)) R)"
  have first: "?s =
           (if target_enabled
            then self\<lparr>enabled_module_names := enabled_module_names self @ ?missing\<rparr>
            else self\<lparr>disabled_module_names := disabled_module_names self @ ?missing\<rparr>)"
    unfolding add_missing_defaults_def Let_def compatible_missing_names by simp
  have names: "get_compatible_default_module_names R ?s = get_compatible_default_module_names R self"
    unfolding get_compatible_default_module_names_def
    by (simp add: filter_to_compatible_cong [OF romtype_add_missing_defaults])
  have "set (get_compatible_default_module_names R self)
          \<subseteq> set (enabled_module_names ?s) \<union> set (disabled_module_names ?s)"
    unfolding first
    by (auto simp: get_compatible_default_module_names_def filter_to_compatible_def
        class_is_compatible_def image_iff)
  then have "add_missing_defaults R ?s target_enabled = ?s"
    by (intro add_missing_defaults_noop) (simp only: names)
  with first show ?thesis by (simp add: Let_def)
qed

text \<open>
  In a registry of \<open>A\<close>, \<open>B\<close>, \<open>C\<close>, \<open>D\<close> where \<open>B\<close> is not compatible with the target
  type and \<open>C\<close> is already enabled, the call appends \<open>A\<close> and \<open>D\<close>, in that order, to
  the chosen list, and a second call appends nothing.
\<close>

theorem add_missing_defaults_appends_idempotent_witness:
  "add_missing_defaults example_registry_wide example_partial_config False
     = example_partial_config\<lparr>disabled_module_names := [''A'', ''D'']\<rparr>
   \<and> add_missing_defaults example_registry_wide
         (example_partial_config\<lparr>disabled_module_names := [''A'', ''D'']\<rparr>) False
     = example_partial_config\<lparr>disabled_module_names := [''A'', ''D'']\<rparr>
   \<and> add_missing_defaults example_registry_wide example_partial_config True
     = example_partial_config\<lparr>enabled_module_names := [''C'', ''A'', ''D'']\<rparr>
   \<and> add_missing_defaults example_registry_wide
         (example_partial_config\<lparr>enabled_module_names := [''C'', ''A'', ''D'']\<rparr>) True
     = example_partial_config\<lparr>enabled_module_names := [''C'', ''A'', ''D'']\<rparr>"
proof -
  have missing: "map fst (filter (\<lambda>(name, cls).
          is_compatible_with_romtype cls (romtype example_partial_config)
          \<and> name \<notin> set (enabled_module_names example_partial_config)
          \<and> name \<notin> set (disabled_module_names example_partial_config)) example_registry_wide)
      = [''A'', ''D'']"
    by (simp add: example_registry_wide_def example_partial_config_def example_A_def
        example_B_def example_C_def example_D_def)
  have lists: "enabled_module_names example_partial_config = [''C'']"
    "disabled_module_names example_partial_config = []"
    by (simp_all add: example_partial_config_def)
  note off_both = add_missing_defaults_appends_idempotent
    [of example_registry_wide example_partial_config False, unfolded missing Let_def]
  from off_both have off: "add_missing_defaults example_registry_wide example_partial_config False
       = example_partial_config\<lparr>disabled_module_names := [''A'', ''D'']\<rparr>"
    by (simp add: lists)
  from off_both have off_again: "add_missing_defaults example_registry_wide
         (example_partial_config\<lparr>disabled_module_names := [''A'', ''D'']\<rparr>) False
     = example_partial_config\<lparr>disabled_module_names := [''A'', ''D'']\<rparr>"
    unfolding off by (rule conjunct2)
  note on_both = add_missing_defaults_appends_idempotent
    [of example_registry_wide example_partial_config True, unfolded missing Let_def]
  from on_both have on: "add_missing_defaults example_registry_wide example_partial_config True
       = example_partial_config\<lparr>enabled_module_names := [''C'', ''A'', ''D'']\<rparr>"
    by (simp add: lists)
  from on_both have on_again: "add_missing_defaults example_registry_wide
         (example_partial_config\<lparr>enabled_module_names := [''C'', ''A'', ''D'']\<rparr>) True
     = example_partial_config\<lparr>enabled_module_names := [''C'', ''A'', ''D'']\<rparr>"
    unfolding on by (rule conjunct2)
  from off off_again on on_again show ?thesis
    by (intro conjI)
qed

lemma distinct_names_filter:
  "distinct (map fst R) \<Longrightarrow> distinct (map fst (filter P R))"
  by (induction R) (auto simp: image_iff)

lemma load_project_specific_loop_appends:
  "load_project_specific_loop self I names acc = (Inr res, I')
     \<Longrightarrow> \<exists>specific. res = acc @ specific \<and> map fst specific = names"
proof (induction names arbitrary: I acc)
  case Nil
  then show ?case by simp
next
  case (Cons name names)
  obtain r J where step: "load_project_specific_module self I name = (r, J)"
    by (cases "load_project_specific_module self I name")
  show ?case
  proof (cases r)
    case (Inl e)
    from Cons.prems have False
      by (simp add: step Inl)
    then show ?thesis ..
  next
    case (Inr cls)
    from Cons.prems
    have "load_project_specific_loop self J names (acc @ [(name, cls)]) = (Inr res, I')"
      by (simp add: step Inr)
    then have "\<exists>specific. res = (acc @ [(name, cls)]) @ specific \<and> map fst specific = names"
      by (rule Cons.IH)
    then obtain specific
      where "res = (acc @ [(name, cls)]) @ specific" and "map fst specific = names"
      by (elim exE conjE)
    then have "res = acc @ ((name, cls) # specific) \<and> map fst ((name, cls) # specific) = name # names"
      by simp
    then show ?thesis by (rule exI)
  qed
qed

text \<open>
  C1. A configuration constructed with no stored descriptor resolves to the registry
  entries compatible with its target type, in registry order; the names are distinct
  when the registry's are; and in any resolution that succeeds the built-in entries
  come first, followed by the project-specific modules in list order.
\<close>

theorem fresh_config_active_modules:
  assumes "stored = None \<or> stored = Some []"
  shows "\<exists>self. ModuleConfig_init R T dir stored = Inr self
           \<and> get_project_modules R self I
               = (Inr (filter (\<lambda>(name, cls). is_compatible_with_romtype cls T) R), I)
           \<and> (distinct (map fst R) \<longrightarrow>
                distinct (map fst (filter (\<lambda>(name, cls). is_compatible_with_romtype cls T) R)))
           \<and> (\<forall>cfg J res J'. get_project_modules R cfg J = (Inr res, J') \<longrightarrow>
                (\<exists>specific.
                   res = filter (\<lambda>(name, cls). name \<in> set (enabled_module_names cfg)
                                   \<and> is_compatible_with_romtype cls (romtype cfg)) R @ specific
                   \<and> map fst specific = project_specific_modules cfg))"
proof -
  let ?self = "\<lparr>romtype = T, project_dir = dir,
                 enabled_module_names = map fst (filter (\<lambda>(name, cls). is_compatible_with_romtype cls T) R),
                 disabled_module_names = [], project_specific_modules = []\<rparr>"
  have init: "ModuleConfig_init R T dir stored = Inr ?self"
    using assms
    by (auto simp: ModuleConfig_init_def Let_def get_compatible_default_module_names_def
        filter_to_compatible_def class_is_compatible_def)
  have active: "get_project_modules R ?self I
      = (Inr (filter (\<lambda>(name, cls). is_compatible_with_romtype cls T) R), I)"
    unfolding get_project_modules_def Let_def class_is_compatible_def
    by (simp, intro filter_cong refl) (force simp: image_iff)
  have order: "\<exists>specific.
                   res = filter (\<lambda>(name, cls). name \<in> set (enabled_module_names cfg)
                                   \<and> is_compatible_with_romtype cls (romtype cfg)) R @ specific
                   \<and> map fst specific = project_specific_modules cfg"
    if "get_project_modules R cfg J = (Inr res, J')" for cfg J res J'
  proof -
    from that have "load_project_specific_loop cfg J (project_specific_modules cfg)
        (filter (\<lambda>(name, cls). name \<in> set (enabled_module_names cfg)
                                   \<and> is_compatible_with_romtype cls (romtype cfg)) R) = (Inr res, J')"
      by (simp add: get_project_modules_def Let_def class_is_compatible_def)
    then show ?thesis by (rule load_project_specific_loop_appends)
  qed
  have nodup: "distinct (map fst R) \<longrightarrow>
      distinct (map fst (filter (\<lambda>(name, cls). is_compatible_with_romtype cls T) R))"
    by (simp add: distinct_names_filter)
  show ?thesis
    by (rule exI [of _ ?self]) (use init active nodup order in simp)
qed

theorem fresh_config_active_modules_witness:
  "ModuleConfig_init example_registry ''X'' ''proj'' None = Inr (example_config [])
   \<and> get_project_modules example_registry (example_config []) example_interpreter
       = (Inr [(''A'', example_A)], example_interpreter)
   \<and> distinct (map fst [(''A'', example_A)])
   \<and> get_project_modules example_registry (example_config [''Mine'']) example_interpreter
       = (Inr ([(''A'', example_A)] @ [(''Mine'', example_custom)]), example_interpreter)"
proof -
  have init: "ModuleConfig_init example_registry ''X'' ''proj'' None = Inr (example_config [])"
    by (simp add: ModuleConfig_init_def Let_def get_compatible_default_module_names_def
        filter_to_compatible_def class_is_compatible_def example_registry_def example_A_def
        example_B_def example_config_def)
  have compat: "filter (\<lambda>(name, cls). is_compatible_with_romtype cls ''X'') example_registry
      = [(''A'', example_A)]"
    by (simp add: example_registry_def example_A_def example_B_def)
  have run: "get_project_modules example_registry (example_config [''Mine'']) example_interpreter
       = (Inr [(''A'', example_A), (''Mine'', example_custom)], example_interpreter)"
    by (simp add: get_project_modules_def Let_def class_is_compatible_def example_registry_def
        example_A_def example_B_def example_config_def load_project_specific_module_def
        example_interpreter_def rpartition_last_def)
  have fresh: "(None :: moduleconfig_dict option) = None \<or> None = Some []" by simp
  from fresh_config_active_modules [OF fresh, where R = example_registry and T = "''X''"
      and dir = "''proj''" and I = example_interpreter]
  obtain self where self: "ModuleConfig_init example_registry ''X'' ''proj'' None = Inr self"
    and active: "get_project_modules example_registry self example_interpreter
       = (Inr (filter (\<lambda>(name, cls). is_compatible_with_romtype cls ''X'') example_registry),
          example_interpreter)"
    and nodup: "distinct (map fst example_registry) \<longrightarrow>
       distinct (map fst (filter (\<lambda>(name, cls). is_compatible_with_romtype cls ''X'') example_registry))"
    and order: "\<forall>cfg J res J'. get_project_modules example_registry cfg J = (Inr res, J') \<longrightarrow>
                (\<exists>specific.
                   res = filter (\<lambda>(name, cls). name \<in> set (enabled_module_names cfg)
                                   \<and> is_compatible_with_romtype cls (romtype cfg)) example_registry @ specific
                   \<and> map fst specific = project_specific_modules cfg)"
    by (elim exE conjE) (rule that)
  from self init have "self = example_config []" by simp
  with active compat have a: "get_project_modules example_registry (example_config []) example_interpreter
       = (Inr [(''A'', example_A)], example_interpreter)" by simp
  have "distinct (map fst example_registry)" by (simp add: example_registry_def)
  with nodup compat have d: "distinct (map fst [(''A'', example_A)])" by simp
  from init a d run show ?thesis by simp
qed

section \<open>ModuleConfig: upgrade\<close>

text \<open>
  C2, as the code has it. Below version 13 \<open>upgrade\<close> succeeds exactly when the
  configuration is the default one and raises \<open>AssertionError\<close> otherwise. From
  version 13 on it raises \<open>NotImplementedError\<close> with a message that holds the old
  version only: the outcome is the same for every new version.
\<close>

theorem upgrade_outcome:
  "(old_version < 13 \<longrightarrow>
      (upgrade R self old_version new_version = Inr ()
         \<longleftrightarrow> enabled_module_names self
               = map fst (filter (\<lambda>(name, cls). is_compatible_with_romtype cls (romtype self)) R)
             \<and> disabled_module_names self = []
             \<and> project_specific_modules self = [])
      \<and> (upgrade R self old_version new_version \<noteq> Inr ()
            \<longrightarrow> upgrade R self old_version new_version = Inl (AssertionError [])))
   \<and> (13 \<le> old_version \<longrightarrow>
         upgrade R self old_version new_version
           = Inl (NotImplementedError (''Don't know how to upgrade from version '' @ str_int old_version))
         \<and> (\<forall>other. upgrade R self old_version other = upgrade R self old_version new_version))"
  by (simp add: upgrade_def get_compatible_default_module_names_def filter_to_compatible_def
      class_is_compatible_def)

theorem upgrade_outcome_witness:
  "upgrade example_registry (example_config []) 12 13 = Inr ()
   \<and> upgrade example_registry (example_config [''Mine'']) 12 13 = Inl (AssertionError [])
   \<and> upgrade example_registry (example_config []) 13 14
       = Inl (NotImplementedError ''Don't know how to upgrade from version 13'')"
proof -
  have names: "map fst (filter (\<lambda>(name, cls).
        is_compatible_with_romtype cls (romtype (example_config s))) example_registry) = [''A'']" for s
    by (simp add: example_registry_def example_A_def example_B_def example_config_def)
  have s13: "str_int 13 = ''13''" by code_simp
  from upgrade_outcome [of 12 example_registry "example_config []" 13]
  have a: "upgrade example_registry (example_config []) 12 13 = Inr ()"
    by (simp add: names) (simp add: example_config_def)
  from upgrade_outcome [of 12 example_registry "example_config [''Mine'']" 13]
  have b: "upgrade example_registry (example_config [''Mine'']) 12 13 = Inl (AssertionError [])"
    by (simp add: names) (simp add: example_config_def)
  from upgrade_outcome [of 13 example_registry "example_config []" 14]
  have c: "upgrade example_registry (example_config []) 13 14
       = Inl (NotImplementedError ''Don't know how to upgrade from version 13'')"
    by (simp add: s13)
  from a b c show ?thesis by simp
qed

text \<open>
  The error raised for the upgrade from 13 to 14 is the one raised for the upgrade from
  13 to 15: it does not carry the new version.
\<close>

theorem upgrade_error_omits_new_version:
  "upgrade example_registry (example_config []) 13 14
     = Inl (NotImplementedError ''Don't know how to upgrade from version 13'')
   \<and> upgrade example_registry (example_config []) 13 15
     = Inl (NotImplementedError ''Don't know how to upgrade from version 13'')"
proof -
  have "str_int 13 = ''13''" by code_simp
  then show ?thesis by (simp add: upgrade_def)
qed

section \<open>The manifest of built-in modules\<close>

lemma read_modulelist_no_blank:
  assumes "\<forall>l\<in>set manifest. rstrip (CHR 0x0A) l \<noteq> []"
  shows "read_modulelist imp manifest acc =
           (case resolve_all imp (manifest_names manifest) of
              Inl e \<Rightarrow> Inl e
            | Inr r \<Rightarrow> Inr (acc @ r))"
  using assms
proof (induction manifest arbitrary: acc)
  case Nil
  then show ?case by (simp add: manifest_names_def)
next
  case (Cons l f)
  then obtain c cs where line: "rstrip (CHR 0x0A) l = c # cs"
    by (cases "rstrip (CHR 0x0A) l") auto
  from Cons.prems have rest: "\<forall>l\<in>set f. rstrip (CHR 0x0A) l \<noteq> []" by simp
  note IH = Cons.IH [OF rest]
  show ?case
  proof (cases "c = CHR ''#''")
    case True
    have "manifest_names (l # f) = manifest_names f"
      by (simp add: manifest_names_def line True)
    then show ?thesis by (simp add: line True IH)
  next
    case False
    have names: "manifest_names (l # f) = (c # cs) # manifest_names f"
      by (simp add: manifest_names_def line False)
    show ?thesis
    proof (cases "resolve_builtin imp (c # cs)")
      case (Inl e)
      then show ?thesis by (simp add: line False names)
    next
      case (Inr cls)
      then show ?thesis
        by (simp add: line False names IH split: sum.splits)
    qed
  qed
qed

text \<open>
  C6, as the code has it. On a manifest without blank lines the first call of the
  discovery skips the comment lines and resolves the other lines in manifest order,
  stopping at the first line that does not resolve.
\<close>

theorem discovery_skips_comments:
  assumes "\<forall>l\<in>set manifest. rstrip (CHR 0x0A) l \<noteq> []"
  shows "fst (get_default_modules imp manifest None) = spec_discovery imp manifest"
  using read_modulelist_no_blank [OF assms, of imp "[]"]
  by (simp add: get_default_modules_def spec_discovery_def split: sum.splits)

theorem discovery_skips_comments_witness:
  "list_all (\<lambda>l. rstrip (CHR 0x0A) l \<noteq> []) example_manifest
   \<and> fst (get_default_modules example_importer example_manifest None) = Inr [(''eb.A'', example_A)]"
proof -
  have lines: "\<forall>l\<in>set example_manifest. rstrip (CHR 0x0A) l \<noteq> []"
    by (simp add: example_manifest_def rstrip_def)
  have "spec_discovery example_importer example_manifest = Inr [(''eb.A'', example_A)]"
    by (simp add: spec_discovery_def manifest_names_def example_manifest_def rstrip_def
        resolve_builtin_def example_importer_def)
  with discovery_skips_comments [OF lines, of example_importer] lines show ?thesis
    by (simp add: list_all_iff)
qed

text \<open>
  A blank line is not skipped: \<open>line[0]\<close> raises \<open>IndexError\<close> on it, where the
  manifest format would have the line ignored.
\<close>

theorem discovery_blank_line_fails:
  "fst (get_default_modules example_importer example_manifest_blank None) = Inl IndexError
   \<and> spec_discovery example_importer example_manifest_blank = Inr [(''eb.A'', example_A)]"
  by (simp add: get_default_modules_def spec_discovery_def manifest_names_def
      example_manifest_blank_def rstrip_def resolve_builtin_def example_importer_def)

section \<open>Project: open and save\<close>

lemma ModuleConfig_init_fresh:
  "ModuleConfig_init R t dir None =
     Inr \<lparr>romtype = t, project_dir = dir,
          enabled_module_names = map fst (filter (\<lambda>(name, cls). is_compatible_with_romtype cls t) R),
          disabled_module_names = [], project_specific_modules = []\<rparr>"
  by (simp add: ModuleConfig_init_def Let_def get_compatible_default_module_names_def
      filter_to_compatible_def class_is_compatible_def)

lemma ModuleConfig_init_to_dict:
  "ModuleConfig_init R t dir (Some (to_dict mc)) =
     Inr \<lparr>romtype = t, project_dir = dir,
          enabled_module_names = enabled_module_names mc,
          disabled_module_names = disabled_module_names mc,
          project_specific_modules = project_specific_modules mc\<rparr>"
  by (simp add: ModuleConfig_init_def Let_def to_dict_def dict_get_def
      L_ENABLED_def L_DISABLED_def L_PROJ_SPECIFIC_def)

lemma save_writes:
  assumes "save p fs = Inr fs'"
  shows "files fs' (snake_filename p) =
           Some (Yaml \<lparr>doc_romtype = Some (project_romtype p),
                       doc_version = Some FORMAT_VERSION,
                       doc_moduleconfig = Some (to_dict (moduleconfig p)),
                       doc_resources = Some (Some (resources p))\<rparr>)"
  using assms
  by (auto simp: save_def Let_def split: prod.splits sum.splits)

lemma example_modes: "valid_mode ''w''" "valid_mode ''r+''"
  by (simp_all add: valid_mode_def)

lemma example_ancestors: "path_ancestors ''proj'' = []"
  by (simp add: path_ancestors_def)

lemma example_dirname: "os_path_dirname ''proj/Project.snake'' = ''proj''"
  by (simp add: os_path_dirname_def rstrip_def)

lemma example_save: "save example_project example_fs = Inr example_saved_fs"
  by (simp add: save_def py_open_def example_modes example_project_def example_fs_def example_saved_fs_def
      example_document_def FORMAT_VERSION_def example_dirname)

text \<open>
  C3. After a \<open>save\<close> that succeeds, opening the same path with the target type left
  out or equal to the saved one gives a project with the saved target type, resource
  registry and three module lists, and with version \<open>FORMAT_VERSION\<close>, whatever the
  version was before.
\<close>

theorem save_then_open_roundtrip:
  assumes "save p fs = Inr fs'"
    and "requested = None \<or> requested = Some (project_romtype p)"
  shows "\<exists>q. Project_init R fs' (snake_filename p) requested = Inr (q, fs')
           \<and> project_romtype q = project_romtype p
           \<and> resources q = resources p
           \<and> enabled_module_names (moduleconfig q) = enabled_module_names (moduleconfig p)
           \<and> disabled_module_names (moduleconfig q) = disabled_module_names (moduleconfig p)
           \<and> project_specific_modules (moduleconfig q) = project_specific_modules (moduleconfig p)
           \<and> version q = Some FORMAT_VERSION"
proof -
  let ?f = "snake_filename p"
  let ?data = "\<lparr>doc_romtype = Some (project_romtype p),
                 doc_version = Some FORMAT_VERSION,
                 doc_moduleconfig = Some (to_dict (moduleconfig p)),
                 doc_resources = Some (Some (resources p))\<rparr>"
  have stored_file: "files fs' ?f = Some (Yaml ?data)"
    using assms(1) by (rule save_writes)
  have "Project_init R fs' ?f requested = load_stored R fs' ?f ?data (project_romtype p)"
    using assms(2) by (auto simp: Project_init_def stored_file)
  then show ?thesis
    by (simp add: load_stored_def ModuleConfig_init_to_dict)
qed

theorem save_then_open_roundtrip_witness:
  "save example_project example_fs = Inr example_saved_fs
   \<and> (case Project_init example_registry example_saved_fs ''proj/Project.snake'' None of
         Inl e \<Rightarrow> False
       | Inr (q, fs) \<Rightarrow>
           project_romtype q = ''X''
           \<and> resources q = [''eb.A'' \<mapsto> [''table'' \<mapsto> ''table.yml'']]
           \<and> enabled_module_names (moduleconfig q) = [''A'']
           \<and> disabled_module_names (moduleconfig q) = []
           \<and> project_specific_modules (moduleconfig q) = [''Mine'']
           \<and> version example_project = Some 12
           \<and> version q = Some 13)"
proof -
  have req: "(None :: string option) = None \<or> None = Some (project_romtype example_project)"
    by simp
  from save_then_open_roundtrip [OF example_save req, of example_registry]
  obtain q where
    "Project_init example_registry example_saved_fs (snake_filename example_project) None
       = Inr (q, example_saved_fs)"
    "project_romtype q = project_romtype example_project"
    "resources q = resources example_project"
    "enabled_module_names (moduleconfig q) = enabled_module_names (moduleconfig example_project)"
    "disabled_module_names (moduleconfig q) = disabled_module_names (moduleconfig example_project)"
    "project_specific_modules (moduleconfig q) = project_specific_modules (moduleconfig example_project)"
    "version q = Some FORMAT_VERSION"
    by (elim exE conjE) (rule that)
  then have "case Project_init example_registry example_saved_fs ''proj/Project.snake'' None of
         Inl e \<Rightarrow> False
       | Inr (q, fs) \<Rightarrow>
           project_romtype q = ''X''
           \<and> resources q = [''eb.A'' \<mapsto> [''table'' \<mapsto> ''table.yml'']]
           \<and> enabled_module_names (moduleconfig q) = [''A'']
           \<and> disabled_module_names (moduleconfig q) = []
           \<and> project_specific_modules (moduleconfig q) = [''Mine'']
           \<and> version example_project = Some 12
           \<and> version q = Some 13"
    by (simp add: example_project_def example_config_def FORMAT_VERSION_def)
  with example_save show ?thesis by simp
qed

text \<open>
  C4. Opening an existing descriptor with a requested target type other than the stored
  one gives a project of the requested type with an empty resource registry and the
  module configuration derived from the registry for the requested type; nothing of the
  decoded file is in the result.
\<close>

theorem open_with_other_romtype_starts_empty:
  assumes "files fs filename = Some (Yaml data)"
    and "doc_romtype data = Some stored"
    and "requested \<noteq> stored"
  shows "Project_init R fs filename (Some requested) =
           Inr (\<lparr>project_romtype = requested,
                 resources = Map.empty,
                 moduleconfig =
                   \<lparr>romtype = requested, project_dir = os_path_dirname filename,
                    enabled_module_names =
                      map fst (filter (\<lambda>(name, cls). is_compatible_with_romtype cls requested) R),
                    disabled_module_names = [], project_specific_modules = []\<rparr>,
                 snake_filename = filename,
                 dir_name = os_path_dirname filename,
                 version = None\<rparr>, fs)
         \<and> ModuleConfig_init R requested (os_path_dirname filename) None =
             Inr \<lparr>romtype = requested, project_dir = os_path_dirname filename,
                    enabled_module_names =
                      map fst (filter (\<lambda>(name, cls). is_compatible_with_romtype cls requested) R),
                    disabled_module_names = [], project_specific_modules = []\<rparr>"
  using assms
  by (simp add: Project_init_def start_empty_def ModuleConfig_init_fresh)

theorem open_with_other_romtype_starts_empty_witness:
  "files example_saved_fs ''proj/Project.snake'' = Some (Yaml example_document)
   \<and> doc_romtype example_document = Some ''X''
   \<and> ''Y'' \<noteq> ''X''
   \<and> Project_init example_registry example_saved_fs ''proj/Project.snake'' (Some ''Y'') =
       Inr (\<lparr>project_romtype = ''Y'',
             resources = Map.empty,
             moduleconfig =
               \<lparr>romtype = ''Y'', project_dir = ''proj'', enabled_module_names = [''B''],
                disabled_module_names = [], project_specific_modules = []\<rparr>,
             snake_filename = ''proj/Project.snake'',
             dir_name = ''proj'',
             version = None\<rparr>, example_saved_fs)"
proof -
  have a: "files example_saved_fs ''proj/Project.snake'' = Some (Yaml example_document)"
    by (simp add: example_saved_fs_def)
  have b: "doc_romtype example_document = Some ''X''"
    by (simp add: example_document_def)
  have c: "''Y'' \<noteq> ''X''" by simp
  have d: "map fst (filter (\<lambda>(name, cls). is_compatible_with_romtype cls ''Y'') example_registry)
      = [''B'']"
    by (simp add: example_registry_def example_A_def example_B_def)
  from open_with_other_romtype_starts_empty [OF a b c, of example_registry] a b c show ?thesis
    by (simp add: d example_dirname)
qed

section \<open>Project: the version attribute\<close>

lemma Project_init_cases:
  assumes "Project_init R fs filename requested = Inr (p, fs')"
  shows "(\<exists>data stored. files fs filename = Some (Yaml data) \<and> doc_romtype data = Some stored
            \<and> (requested = None \<or> requested = Some stored)
            \<and> load_stored R fs filename data stored = Inr (p, fs'))
       \<or> (\<exists>data stored t. files fs filename = Some (Yaml data) \<and> doc_romtype data = Some stored
            \<and> requested = Some t \<and> t \<noteq> stored \<and> start_empty R fs filename t = Inr (p, fs'))
       \<or> (\<exists>t fs0. files fs filename = None \<and> requested = Some t
            \<and> start_empty R fs0 filename t = Inr (p, fs'))"
  using assms
  by (auto simp: Project_init_def split: option.splits content.splits if_splits sum.splits)

lemma load_stored_version:
  "load_stored R fs filename data stored = Inr (p, fs')
     \<Longrightarrow> version p = Some (case doc_version data of None \<Rightarrow> 1 | Some v \<Rightarrow> v)"
  by (auto simp: load_stored_def split: option.splits sum.splits)

lemma start_empty_version:
  "start_empty R fs filename t = Inr (p, fs') \<Longrightarrow> version p = None"
  by (auto simp: start_empty_def split: sum.splits)

lemma get_resource_version:
  "get_resource p fs m r ext mode = (out, p', fs') \<Longrightarrow> version p' = version p"
  by (auto simp: get_resource_def Let_def split: option.splits if_splits sum.splits prod.splits)

lemma delete_resource_version:
  "delete_resource p fs m r = (out, p', fs') \<Longrightarrow> version p' = version p"
  by (auto simp: delete_resource_def Let_def split: option.splits)

lemma example_create:
  "Project_init example_registry example_fs ''proj/Project.snake'' (Some ''X'')
     = Inr (example_new_project, example_fs)"
  by (simp add: Project_init_def start_empty_def ModuleConfig_init_fresh os_makedirs_def example_ancestors
      example_fs_def example_dirname ROM_TYPE_NAME_UNKNOWN_def example_new_project_def
      example_config_def example_registry_def example_A_def example_B_def)

lemma example_reopen:
  "Project_init example_registry example_saved_fs ''proj/Project.snake'' None
     = Inr (example_project\<lparr>version := Some 13\<rparr>, example_saved_fs)"
  by (simp add: Project_init_def load_stored_def ModuleConfig_init_to_dict example_saved_fs_def
      example_document_def example_dirname example_project_def example_config_def)

text \<open>
  C10. \<open>__init__\<close> assigns \<open>version\<close> only when it loads an existing descriptor with the
  target type left out or equal to the stored one (the stored version, 1 when the key is
  missing). After a creation or an open with another target type the attribute does not
  exist and reading it raises \<open>AttributeError\<close>; \<open>get_resource\<close> and
  \<open>delete_resource\<close> leave it as it is, and \<open>Project.upgrade\<close> sets it to the new
  version when the upgrade of the module configuration succeeds.
\<close>

theorem version_assigned_only_when_loaded:
  assumes "Project_init R fs filename requested = Inr (p, fs')"
  shows "(case files fs filename of
            Some (Yaml data) \<Rightarrow>
              if requested = None \<or> requested = doc_romtype data
              then version p = Some (case doc_version data of None \<Rightarrow> 1 | Some v \<Rightarrow> v)
              else version p = None \<and> read_version p = Inl (AttributeError ''version'')
          | _ \<Rightarrow> version p = None \<and> read_version p = Inl (AttributeError ''version''))
       \<and> version (fst (snd (get_resource p fs' m r ext mode))) = version p
       \<and> version (fst (snd (delete_resource p fs' m r))) = version p
       \<and> version (snd (Project_upgrade R p old_version new_version)) =
           (if upgrade R (moduleconfig p) old_version new_version = Inr ()
            then Some new_version else version p)"
proof -
  have a: "case files fs filename of
            Some (Yaml data) \<Rightarrow>
              if requested = None \<or> requested = doc_romtype data
              then version p = Some (case doc_version data of None \<Rightarrow> 1 | Some v \<Rightarrow> v)
              else version p = None \<and> read_version p = Inl (AttributeError ''version'')
          | _ \<Rightarrow> version p = None \<and> read_version p = Inl (AttributeError ''version'')"
    using Project_init_cases [OF assms]
    by (auto simp: read_version_def dest: load_stored_version start_empty_version)
  have b: "version (fst (snd (get_resource p fs' m r ext mode))) = version p"
    by (cases "get_resource p fs' m r ext mode") (auto dest: get_resource_version)
  have c: "version (fst (snd (delete_resource p fs' m r))) = version p"
    by (cases "delete_resource p fs' m r") (auto dest: delete_resource_version)
  have d: "version (snd (Project_upgrade R p old_version new_version)) =
           (if upgrade R (moduleconfig p) old_version new_version = Inr ()
            then Some new_version else version p)"
    by (simp add: Project_upgrade_def split: sum.splits)
  from a b c d show ?thesis by simp
qed

theorem version_assigned_only_when_loaded_witness:
  "Project_init example_registry example_fs ''proj/Project.snake'' (Some ''X'')
     = Inr (example_new_project, example_fs)
   \<and> version example_new_project = None
   \<and> read_version example_new_project = Inl (AttributeError ''version'')
   \<and> version (snd (Project_upgrade example_registry example_new_project 12 13)) = Some 13
   \<and> Project_init example_registry example_saved_fs ''proj/Project.snake'' None
     = Inr (example_project\<lparr>version := Some 13\<rparr>, example_saved_fs)
   \<and> version (example_project\<lparr>version := Some 13\<rparr>) = Some 13"
proof -
  have up: "upgrade example_registry (moduleconfig example_new_project) 12 13 = Inr ()"
    by (simp add: upgrade_def example_new_project_def example_config_def
        get_compatible_default_module_names_def filter_to_compatible_def class_is_compatible_def
        example_registry_def example_A_def example_B_def)
  have nofile: "files example_fs ''proj/Project.snake'' = None"
    by (simp add: example_fs_def)
  from version_assigned_only_when_loaded [OF example_create,
      where old_version = 12 and new_version = 13]
  have a: "version example_new_project = None
      \<and> read_version example_new_project = Inl (AttributeError ''version'')
      \<and> version (snd (Project_upgrade example_registry example_new_project 12 13)) = Some 13"
    by (simp add: nofile up)
  have stored: "files example_saved_fs ''proj/Project.snake'' = Some (Yaml example_document)"
    by (simp add: example_saved_fs_def)
  from version_assigned_only_when_loaded [OF example_reopen]
  have b: "version (example_project\<lparr>version := Some 13\<rparr>) = Some 13"
    by simp
  from a b show ?thesis
    by (simp add: example_create example_reopen)
qed

section \<open>Project: the resource registry\<close>

lemma get_resource_registry:
  assumes "get_resource p fs m r ext mode = (out, p', fs')"
  shows "p' = p\<lparr>resources :=
            (case resources p m of
               None \<Rightarrow> (resources p)(m \<mapsto> [r \<mapsto> r @ ''.'' @ ext])
             | Some d \<Rightarrow>
                 (case d r of
                    None \<Rightarrow> (resources p)(m \<mapsto> d(r \<mapsto> r @ ''.'' @ ext))
                  | Some rel \<Rightarrow> resources p))\<rparr>"
  using assms
  by (auto simp: get_resource_def Let_def
      split: option.splits if_splits sum.splits prod.splits)

lemma get_resource_entry:
  assumes "get_resource p fs m r ext mode = (out, p', fs')"
  shows "\<exists>d rel. resources p' m = Some d \<and> d r = Some rel"
  unfolding get_resource_registry [OF assms]
  by (auto split: option.splits)

lemma get_resource_registered_noop:
  assumes "get_resource p fs m r ext mode = (out, p', fs')"
    and "resources p m = Some d" and "d r = Some rel"
  shows "p' = p"
  unfolding get_resource_registry [OF assms(1)] using assms(2,3) by simp

lemma get_resource_handle:
  assumes "get_resource p fs m r ext mode = (Inr h, p', fs')"
    and "resources p' m = Some d" and "d r = Some rel"
  shows "handle_name h = os_path_join (dir_name p) rel"
  using assms
  by (auto simp: get_resource_def Let_def py_open_def
      split: option.splits if_splits sum.splits prod.splits)

lemma example_resources: "resources example_project = [''eb.A'' \<mapsto> [''table'' \<mapsto> ''table.yml'']]"
  by (simp add: example_project_def)

lemma example_icons_path:
  "os_path_join ''proj'' ''icons.dat'' = ''proj/icons.dat''"
  "os_path_dirname ''proj/icons.dat'' = ''proj''"
  by (simp_all add: os_path_join_def os_path_dirname_def rstrip_def)

lemma example_get_resource_w:
  "get_resource example_project example_fs ''eb.A'' ''icons'' ''dat'' ''w''
     = (Inr (FileHandle ''proj/icons.dat'' ''w''), example_registered, example_fs_icons)"
  by (simp add: get_resource_def Let_def example_project_def example_fs_def example_registered_def
      example_fs_icons_def example_icons_path os_path_exists_def py_open_def example_modes)

lemma example_get_resource_w_again:
  "get_resource example_registered example_fs_icons ''eb.A'' ''icons'' ''dat'' ''w''
     = (Inr (FileHandle ''proj/icons.dat'' ''w''), example_registered, example_fs_icons)"
  by (simp add: get_resource_def Let_def example_project_def example_registered_def
      example_fs_icons_def example_icons_path os_path_exists_def py_open_def example_modes)

lemma example_get_resource_r:
  "get_resource example_project example_fs ''eb.A'' ''icons'' ''dat'' ''r+''
     = (Inl (FileNotFoundError ''proj/icons.dat''), example_registered, example_fs)"
  by (simp add: get_resource_def Let_def example_project_def example_fs_def example_registered_def
      example_icons_path os_path_exists_def py_open_def example_modes)

text \<open>
  C8. Two consecutive calls of \<open>get_resource\<close> with the same arguments find the same
  relative path registered for the pair, and a handle returned by either call is for
  that path under the project directory; the first call adds the entry only if the pair
  was not registered, the second leaves the project as the first left it.
\<close>

theorem get_resource_twice:
  assumes "get_resource p fs m r ext mode = (out1, p1, fs1)"
    and "get_resource p1 fs1 m r ext mode = (out2, p2, fs2)"
  shows "\<exists>d rel. resources p1 m = Some d \<and> d r = Some rel
           \<and> (\<forall>h. out1 = Inr h \<longrightarrow> handle_name h = os_path_join (dir_name p) rel)
           \<and> (\<forall>h. out2 = Inr h \<longrightarrow> handle_name h = os_path_join (dir_name p) rel)
           \<and> p2 = p1
           \<and> resources p1 =
               (case resources p m of
                  None \<Rightarrow> (resources p)(m \<mapsto> [r \<mapsto> r @ ''.'' @ ext])
                | Some d0 \<Rightarrow>
                    (case d0 r of
                       None \<Rightarrow> (resources p)(m \<mapsto> d0(r \<mapsto> r @ ''.'' @ ext))
                     | Some rel0 \<Rightarrow> resources p))"
proof -
  from get_resource_entry [OF assms(1)] obtain d rel
    where entry: "resources p1 m = Some d" "d r = Some rel"
    by (elim exE conjE)
  have same: "p2 = p1"
    using assms(2) entry by (rule get_resource_registered_noop)
  have dir: "dir_name p1 = dir_name p"
    unfolding get_resource_registry [OF assms(1)] by simp
  have h1: "handle_name h = os_path_join (dir_name p) rel" if "out1 = Inr h" for h
    using assms(1) entry unfolding that by (rule get_resource_handle)
  have h2: "handle_name h = os_path_join (dir_name p) rel" if "out2 = Inr h" for h
    using get_resource_handle [OF assms(2) [unfolded that] entry [folded same]]
    by (simp add: dir)
  have reg: "resources p1 =
               (case resources p m of
                  None \<Rightarrow> (resources p)(m \<mapsto> [r \<mapsto> r @ ''.'' @ ext])
                | Some d0 \<Rightarrow>
                    (case d0 r of
                       None \<Rightarrow> (resources p)(m \<mapsto> d0(r \<mapsto> r @ ''.'' @ ext))
                     | Some rel0 \<Rightarrow> resources p))"
    unfolding get_resource_registry [OF assms(1)] by simp
  from entry h1 h2 same reg show ?thesis by simp
qed

theorem get_resource_twice_witness:
  "get_resource example_project example_fs ''eb.A'' ''icons'' ''dat'' ''w''
     = (Inr (FileHandle ''proj/icons.dat'' ''w''), example_registered, example_fs_icons)
   \<and> get_resource example_registered example_fs_icons ''eb.A'' ''icons'' ''dat'' ''w''
     = (Inr (FileHandle ''proj/icons.dat'' ''w''), example_registered, example_fs_icons)
   \<and> (\<exists>d. resources example_registered ''eb.A'' = Some d \<and> d ''icons'' = Some ''icons.dat'')"
proof -
  from get_resource_twice [OF example_get_resource_w example_get_resource_w_again]
  obtain d rel where "resources example_registered ''eb.A'' = Some d" and "d ''icons'' = Some rel"
    and "handle_name (FileHandle ''proj/icons.dat'' ''w'') = os_path_join (dir_name example_project) rel"
    by (elim exE conjE) simp
  moreover have "d ''icons'' = Some ''icons.dat''"
    using calculation(1) by (auto simp: example_registered_def)
  ultimately show ?thesis
    by (simp add: example_get_resource_w example_get_resource_w_again)
qed

text \<open>
  C9. When \<open>get_resource\<close> is called on an unregistered pair and raises, the default
  entry \<open>resource_name + "." + extension\<close> is in the registry all the same.
\<close>

theorem get_resource_keeps_registration_on_failure:
  assumes "get_resource p fs m r ext mode = (Inl e, p', fs')"
    and "resources p m = None \<or> (\<exists>d. resources p m = Some d \<and> d r = None)"
  shows "\<exists>d. resources p' m = Some d \<and> d r = Some (r @ ''.'' @ ext)"
  unfolding get_resource_registry [OF assms(1)] using assms(2)
  by auto

theorem get_resource_keeps_registration_on_failure_witness:
  "get_resource example_project example_fs ''eb.A'' ''icons'' ''dat'' ''r+''
     = (Inl (FileNotFoundError ''proj/icons.dat''), example_registered, example_fs)
   \<and> resources example_project ''eb.A'' = Some [''table'' \<mapsto> ''table.yml'']
   \<and> (\<exists>d. resources example_registered ''eb.A'' = Some d \<and> d ''icons'' = Some ''icons.dat'')"
proof -
  have unreg: "resources example_project ''eb.A'' = None
      \<or> (\<exists>d. resources example_project ''eb.A'' = Some d \<and> d ''icons'' = None)"
    by (simp add: example_resources)
  from get_resource_keeps_registration_on_failure [OF example_get_resource_r unreg]
  have "\<exists>d. resources example_registered ''eb.A'' = Some d \<and> d ''icons'' = Some ''icons.dat''"
    by simp
  then show ?thesis
    by (simp add: example_get_resource_r example_resources)
qed

text \<open>
  C7. \<open>delete_resource\<close> raises \<open>CoilSnakeError\<close> and changes nothing when the module
  or the resource is not registered. Otherwise it removes the entry, and the file if
  there is one; a later \<open>get_resource\<close> with the same keys registers the default
  \<open>resource_name + "." + extension\<close>, whatever the file system then holds.
\<close>

theorem delete_resource_outcomes:
  "(resources p m = None \<longrightarrow>
      delete_resource p fs m r = (Inl (CoilSnakeError (''No such module '' @ m)), p, fs))
   \<and> (\<forall>d. resources p m = Some d \<and> d r = None \<longrightarrow>
         delete_resource p fs m r
           = (Inl (CoilSnakeError (''No such resource '' @ r @ '' in module '' @ m)), p, fs))
   \<and> (\<forall>d rel. resources p m = Some d \<and> d r = Some rel \<longrightarrow>
         delete_resource p fs m r
           = (Inr (), p\<lparr>resources := (resources p)(m \<mapsto> d(r := None))\<rparr>,
              if os_path_isfile fs (os_path_join (dir_name p) rel)
              then os_remove fs (os_path_join (dir_name p) rel) else fs)
         \<and> (\<forall>fs' ext mode.
               fst (snd (get_resource (p\<lparr>resources := (resources p)(m \<mapsto> d(r := None))\<rparr>)
                           fs' m r ext mode))
                 = p\<lparr>resources := (resources p)(m \<mapsto> d(r \<mapsto> r @ ''.'' @ ext))\<rparr>))"
proof -
  have again: "fst (snd (get_resource (p\<lparr>resources := (resources p)(m \<mapsto> d(r := None))\<rparr>)
                           fs' m r ext mode))
                 = p\<lparr>resources := (resources p)(m \<mapsto> d(r \<mapsto> r @ ''.'' @ ext))\<rparr>"
    for d fs' ext mode
  proof -
    obtain out q fs'' where
      run: "get_resource (p\<lparr>resources := (resources p)(m \<mapsto> d(r := None))\<rparr>) fs' m r ext mode
              = (out, q, fs'')"
      by (cases "get_resource (p\<lparr>resources := (resources p)(m \<mapsto> d(r := None))\<rparr>) fs' m r ext mode")
    show ?thesis
      unfolding run get_resource_registry [OF run] by simp
  qed
  show ?thesis
    by (simp add: delete_resource_def Let_def again)
qed

theorem delete_resource_outcomes_witness:
  "delete_resource example_project example_fs ''eb.B'' ''table''
     = (Inl (CoilSnakeError ''No such module eb.B''), example_project, example_fs)
   \<and> delete_resource example_project example_fs ''eb.A'' ''icons''
     = (Inl (CoilSnakeError ''No such resource icons in module eb.A''), example_project, example_fs)
   \<and> delete_resource example_project example_fs ''eb.A'' ''table''
     = (Inr (), example_project\<lparr>resources := [''eb.A'' \<mapsto> Map.empty]\<rparr>, example_fs)
   \<and> fst (snd (get_resource (example_project\<lparr>resources := [''eb.A'' \<mapsto> Map.empty]\<rparr>)
                  example_fs ''eb.A'' ''table'' ''dat'' ''w''))
     = example_project\<lparr>resources := [''eb.A'' \<mapsto> [''table'' \<mapsto> ''table.dat'']]\<rparr>"
proof -
  have nofile: "\<not> os_path_isfile example_fs f" for f
    by (simp add: os_path_isfile_def example_fs_def)
  have a: "delete_resource example_project example_fs ''eb.B'' ''table''
     = (Inl (CoilSnakeError ''No such module eb.B''), example_project, example_fs)"
    using delete_resource_outcomes [where p = example_project and fs = example_fs
        and m = "''eb.B''" and r = "''table''"]
    by (simp add: example_resources)
  have b: "delete_resource example_project example_fs ''eb.A'' ''icons''
     = (Inl (CoilSnakeError ''No such resource icons in module eb.A''), example_project, example_fs)"
    using delete_resource_outcomes [where p = example_project and fs = example_fs
        and m = "''eb.A''" and r = "''icons''"]
    by (simp add: example_resources)
  have c: "delete_resource example_project example_fs ''eb.A'' ''table''
       = (Inr (), example_project\<lparr>resources := [''eb.A'' \<mapsto> Map.empty]\<rparr>, example_fs)
     \<and> fst (snd (get_resource (example_project\<lparr>resources := [''eb.A'' \<mapsto> Map.empty]\<rparr>)
                  example_fs ''eb.A'' ''table'' ''dat'' ''w''))
       = example_project\<lparr>resources := [''eb.A'' \<mapsto> [''table'' \<mapsto> ''table.dat'']]\<rparr>"
    using delete_resource_outcomes [where p = example_project and fs = example_fs
        and m = "''eb.A''" and r = "''table''"]
    by (simp add: example_resources nofile)
  from a b c show ?thesis by simp
qed

end
